theory Spec2Isabelle
  imports Main "HOL-Library.Sublist"
begin

section \<open>ExportVisibleFiles: a shallow embedding\<close>

text \<open>
  The add-in script \<^verbatim>\<open>ExportVisibleFiles.py\<close> is glue between a CAD host and its export
  manager. The embedding keeps the script's own logic (the two scans of the component
  collection, the filename sanitiser, the extension table, the export dispatch and the
  three event callbacks) and makes the host explicit:
  \<^item> the host's live document and the command's widgets are data the script reads;
  \<^item> every call the script makes into the host is recorded, in order, in a trace of events;
  \<^item> a call into the host may raise: the host decides, from the calls made so far and the
    call at hand, whether it does, so an exception is a value (\<open>Inl\<close>) of the result.

  The functions \<^verbatim>\<open>run\<close> and \<^verbatim>\<open>stop\<close>, which add the command to the host's panel
  and remove it, are not part of the embedding.
\<close>

subsection \<open>Python strings\<close>

text \<open>
  A Python \<^verbatim>\<open>str\<close> is a sequence of Unicode code points, so a character is a natural
  number and a string a list of them; \<open>lit\<close> reads an ASCII literal of the source.
\<close>

type_synonym pychar = nat
type_synonym pystr = "pychar list"

definition lit :: "string \<Rightarrow> pystr" where
  "lit s = map of_char s"

text \<open>
  \<^verbatim>\<open>str.isalnum\<close> and the whitespace \<^verbatim>\<open>str.rstrip()\<close> removes are fixed on ASCII
  (digits and letters; tab to carriage return, the four separators 0x1C to 0x1F, and the
  space). Beyond ASCII both are read from the Unicode character database of the
  interpreter, which is a parameter here.
\<close>

record ucd =
  alnum_above_ascii :: "pychar \<Rightarrow> bool"
  space_above_ascii :: "pychar \<Rightarrow> bool"

definition isalnum :: "ucd \<Rightarrow> pychar \<Rightarrow> bool" where
  "isalnum U c =
     (if c < 128
      then (48 \<le> c \<and> c \<le> 57) \<or> (65 \<le> c \<and> c \<le> 90) \<or> (97 \<le> c \<and> c \<le> 122)
      else alnum_above_ascii U c)"

definition isspace :: "ucd \<Rightarrow> pychar \<Rightarrow> bool" where
  "isspace U c =
     (if c < 128
      then (9 \<le> c \<and> c \<le> 13) \<or> (28 \<le> c \<and> c \<le> 32)
      else space_above_ascii U c)"

text \<open>\<^verbatim>\<open>s.rstrip()\<close>: the characters are dropped from the right end while they are whitespace.\<close>

definition rstrip :: "ucd \<Rightarrow> pystr \<Rightarrow> pystr" where
  "rstrip U s = rev (dropWhile (isspace U) (rev s))"

text \<open>\<^verbatim>\<open>str(n)\<close> for a length: the decimal digits, most significant first.\<close>

fun py_str :: "nat \<Rightarrow> pystr" where
  "py_str n = (if n < 10 then [48 + n] else py_str (n div 10) @ [48 + n mod 10])"

subsection \<open>The helper functions\<close>

text \<open>
  \<^verbatim>\<open>"".join(c for c in name if c.isalnum() or c in (' ', '.', '_', '-')).rstrip()\<close>
\<close>

definition sanitize_filename :: "ucd \<Rightarrow> pystr \<Rightarrow> pystr" where
  "sanitize_filename U name =
     rstrip U (filter (\<lambda>c. isalnum U c \<or> c \<in> set (lit '' ._-'')) name)"

text \<open>The dictionary of extensions, read with \<^verbatim>\<open>.get(format_str, 'stp')\<close>.\<close>

definition get_file_extension :: "pystr \<Rightarrow> pystr" where
  "get_file_extension format_str =
     (case map_of [(lit ''STEP'', lit ''step''), (lit ''STL'', lit ''stl''),
                   (lit ''IGES'', lit ''igs''), (lit ''SAT'', lit ''sat'')] format_str of
        Some ext \<Rightarrow> ext
      | None \<Rightarrow> lit ''stp'')"

subsection \<open>The host's document\<close>

text \<open>
  The script reads three attributes of a body or component (\<^verbatim>\<open>name\<close>, \<^verbatim>\<open>isVisible\<close>,
  and a component's \<^verbatim>\<open>bRepBodies\<close>) and the root's \<^verbatim>\<open>allComponents\<close>. The items it
  collects and exports are components and bodies, which \<^verbatim>\<open>isinstance\<close> tells apart.
\<close>

record body =
  body_name :: pystr
  body_isVisible :: bool

record component =
  comp_name :: pystr
  comp_isVisible :: bool
  bRepBodies :: "body list"

record root_component =
  allComponents :: "component list"

record design =
  rootComponent :: root_component

datatype entity = Component component | BRepBody body

fun entity_name :: "entity \<Rightarrow> pystr" where
  "entity_name (Component cmp) = comp_name cmp"
| "entity_name (BRepBody b) = body_name b"

text \<open>
  \<^verbatim>\<open>get_visible_entities\<close>: each \<^verbatim>\<open>for\<close> loop is a recursion over the collection that
  carries the list \<^verbatim>\<open>visible_items\<close> and appends to it.
\<close>

fun append_visible_components :: "component list \<Rightarrow> entity list \<Rightarrow> entity list" where
  "append_visible_components [] visible_items = visible_items"
| "append_visible_components (cmp # comps) visible_items =
     append_visible_components comps
       (if comp_isVisible cmp then visible_items @ [Component cmp] else visible_items)"

fun append_visible_bodies_of :: "body list \<Rightarrow> entity list \<Rightarrow> entity list" where
  "append_visible_bodies_of [] visible_items = visible_items"
| "append_visible_bodies_of (b # bs) visible_items =
     append_visible_bodies_of bs
       (if body_isVisible b then visible_items @ [BRepBody b] else visible_items)"

fun append_visible_bodies :: "component list \<Rightarrow> entity list \<Rightarrow> entity list" where
  "append_visible_bodies [] visible_items = visible_items"
| "append_visible_bodies (cmp # comps) visible_items =
     append_visible_bodies comps (append_visible_bodies_of (bRepBodies cmp) visible_items)"

definition get_visible_entities :: "root_component \<Rightarrow> bool \<Rightarrow> bool \<Rightarrow> entity list" where
  "get_visible_entities root_comp export_components export_bodies =
     (let visible_items = [];
          visible_items =
            (if export_components
             then append_visible_components (allComponents root_comp) visible_items
             else visible_items);
          visible_items =
            (if export_bodies
             then append_visible_bodies (allComponents root_comp) visible_items
             else visible_items)
      in visible_items)"

subsection \<open>Calls into the host\<close>

text \<open>
  The export manager's four constructors, each with the arguments the script passes, and
  the events of a run: the calls into the host's user interface, command inputs, progress
  dialog and export manager, and the script's own list \<^verbatim>\<open>handlers\<close>.
\<close>

datatype export_options =
    STEPExportOptions pystr component
  | IGESExportOptions pystr component
  | SATExportOptions pystr component
  | STLExportOptions "body list" pystr

datatype handler = CommandCreatedHandler | InputChangedHandler | CommandExecuteHandler

datatype dropdown_style = TextListDropDownStyle

datatype event =
    Create export_options
  | Execute export_options
  | MessageBox pystr
  | SelectFolderDialog pystr
  | CreateProgressDialog
  | SetIsBackgroundTranslucent bool
  | ProgressShow pystr pystr nat nat nat
  | SetProgressValue nat
  | ProgressHide
  | SetText pystr pystr
  | AddBoolValueInput pystr pystr bool
  | AddDropDownCommandInput pystr pystr dropdown_style
  | ListItemsAdd pystr bool
  | AddTextBoxCommandInput pystr pystr pystr nat bool
  | InputChangedAdd handler
  | ExecuteAdd handler
  | HandlersAppend handler

text \<open>
  An exception is identified with the text \<^verbatim>\<open>traceback.format_exc()\<close> renders for it,
  the only thing the script reads from one.
\<close>

datatype py_exn = Raised (format_exc: pystr)

record command_inputs =
  exportComponents :: bool
  exportBodies :: bool
  fileFormat :: pystr

text \<open>
  What the script is given: the interpreter's Unicode tables and \<^verbatim>\<open>os.path.join\<close>, the
  active design, the values of the command's inputs, the folder the user picks in the
  folder dialog (empty when the dialog is cancelled), and \<open>raises\<close>, which says for the
  calls made so far and the next call whether that call raises.
\<close>

record host =
  unicode :: ucd
  os_path_join :: "pystr \<Rightarrow> pystr \<Rightarrow> pystr"
  activeProduct :: design
  commandInputs :: command_inputs
  folder_choice :: pystr
  raises :: "event list \<Rightarrow> event \<Rightarrow> py_exn option"

text \<open>
  A piece of script takes the trace so far and returns the trace extended by the calls
  it made, with either the exception that ended it or its value.
\<close>

type_synonym 'a io = "event list \<Rightarrow> event list \<times> (py_exn + 'a)"

definition ret :: "'a \<Rightarrow> 'a io" where
  "ret v tr = (tr, Inr v)"

definition bnd :: "'a io \<Rightarrow> ('a \<Rightarrow> 'b io) \<Rightarrow> 'b io" where
  "bnd m f tr = (case m tr of (tr', Inl x) \<Rightarrow> (tr', Inl x) | (tr', Inr v) \<Rightarrow> f v tr')"

definition host_call :: "host \<Rightarrow> event \<Rightarrow> unit io" where
  "host_call h c tr =
     (tr @ [c], case raises h tr c of Some x \<Rightarrow> Inl x | None \<Rightarrow> Inr ())"

text \<open>
  \<^verbatim>\<open>ui.messageBox\<close> is a call into the host like any other: it may raise, in the
  branches of \<^verbatim>\<open>export_entity\<close> as well as in the \<^verbatim>\<open>except\<close> clauses of the callbacks.
\<close>

definition messageBox :: "host \<Rightarrow> pystr \<Rightarrow> unit io" where
  "messageBox h msg = host_call h (MessageBox msg)"

text \<open>
  An append to the script's own list \<^verbatim>\<open>handlers\<close> is recorded too; it is no call into
  the host and always returns.
\<close>

definition emit :: "event \<Rightarrow> unit io" where
  "emit c tr = (tr @ [c], Inr ())"

definition selectFolderDialog :: "host \<Rightarrow> pystr \<Rightarrow> pystr io" where
  "selectFolderDialog h title =
     bnd (host_call h (SelectFolderDialog title)) (\<lambda>_. ret (folder_choice h))"

definition create :: "host \<Rightarrow> export_options \<Rightarrow> export_options option io" where
  "create h options = bnd (host_call h (Create options)) (\<lambda>_. ret (Some options))"

text \<open>\<^verbatim>\<open>try: body except: handler\<close>, the bare \<^verbatim>\<open>except\<close> catching every exception.\<close>

definition try_except :: "unit io \<Rightarrow> (py_exn \<Rightarrow> unit io) \<Rightarrow> unit io" where
  "try_except body handle tr =
     (case body tr of (tr', Inl x) \<Rightarrow> handle x tr' | (tr', Inr v) \<Rightarrow> (tr', Inr v))"

subsection \<open>Export dispatch\<close>

text \<open>
  \<^verbatim>\<open>export_entity\<close>: the branches either bind \<^verbatim>\<open>options\<close> or show a message box and
  return; \<^verbatim>\<open>exportMgr.execute(options)\<close> is the one statement after them.
\<close>

definition export_entity :: "host \<Rightarrow> entity \<Rightarrow> pystr \<Rightarrow> pystr \<Rightarrow> unit io" where
  "export_entity h entity folder export_format =
     (let filename = sanitize_filename (unicode h) (entity_name entity) @ lit ''.''
                       @ get_file_extension export_format;
          filepath = os_path_join h folder filename
      in bnd
           (case entity of
              Component cmp \<Rightarrow>
                if export_format = lit ''STEP'' then create h (STEPExportOptions filepath cmp)
                else if export_format = lit ''IGES'' then create h (IGESExportOptions filepath cmp)
                else if export_format = lit ''SAT'' then create h (SATExportOptions filepath cmp)
                else if export_format = lit ''STL''
                  then create h (STLExportOptions (bRepBodies cmp) filepath)
                else bnd (messageBox h (lit ''Unsupported format: '' @ export_format))
                       (\<lambda>_. ret None)
            | BRepBody b \<Rightarrow>
                if export_format = lit ''STL'' then create h (STLExportOptions [b] filepath)
                else bnd (messageBox h (lit ''Bodies can only be exported as STL''))
                       (\<lambda>_. ret None))
           (\<lambda>selected. case selected of
                          None \<Rightarrow> ret ()
                        | Some options \<Rightarrow> host_call h (Execute options)))"

subsection \<open>The event callbacks\<close>

text \<open>\<^verbatim>\<open>for f in ['STEP', 'STL', 'IGES', 'SAT']: format_dropdown.listItems.add(f, f=='STEP')\<close>\<close>

fun add_list_items :: "host \<Rightarrow> pystr list \<Rightarrow> unit io" where
  "add_list_items h [] = ret ()"
| "add_list_items h (f # fs) =
     bnd (host_call h (ListItemsAdd f (f = lit ''STEP''))) (\<lambda>_. add_list_items h fs)"

definition CommandCreatedHandler_body :: "host \<Rightarrow> unit io" where
  "CommandCreatedHandler_body h =
     bnd (host_call h (AddBoolValueInput (lit ''exportComponents'') (lit ''Export Components'') True)) (\<lambda>_.
     bnd (host_call h (AddBoolValueInput (lit ''exportBodies'') (lit ''Export Bodies'') True)) (\<lambda>_.
     bnd (host_call h (AddDropDownCommandInput (lit ''fileFormat'') (lit ''File Format'')
            TextListDropDownStyle)) (\<lambda>_.
     bnd (add_list_items h [lit ''STEP'', lit ''STL'', lit ''IGES'', lit ''SAT'']) (\<lambda>_.
     bnd (host_call h (AddTextBoxCommandInput (lit ''fileCount'') (lit ''Files to Export'')
            (lit ''0'') 1 True)) (\<lambda>_.
     bnd (host_call h (InputChangedAdd InputChangedHandler)) (\<lambda>_.
     bnd (emit (HandlersAppend InputChangedHandler)) (\<lambda>_.
     bnd (host_call h (ExecuteAdd CommandExecuteHandler)) (\<lambda>_.
     emit (HandlersAppend CommandExecuteHandler)))))))))"

definition CommandCreatedHandler_notify :: "host \<Rightarrow> unit io" where
  "CommandCreatedHandler_notify h =
     try_except (CommandCreatedHandler_body h)
       (\<lambda>x. messageBox h (lit ''Failed in CommandCreatedHandler:'' @ [10] @ format_exc x))"

definition InputChangedHandler_body :: "host \<Rightarrow> unit io" where
  "InputChangedHandler_body h =
     (let cmdInputs = commandInputs h;
          design = activeProduct h;
          root = rootComponent design;
          export_components = exportComponents cmdInputs;
          export_bodies = exportBodies cmdInputs;
          visible_items = get_visible_entities root export_components export_bodies
      in host_call h (SetText (lit ''fileCount'') (py_str (length visible_items))))"

definition InputChangedHandler_notify :: "host \<Rightarrow> unit io" where
  "InputChangedHandler_notify h =
     try_except (InputChangedHandler_body h)
       (\<lambda>x. messageBox h (lit ''Failed in InputChangedHandler:'' @ [10] @ format_exc x))"

text \<open>
  \<^verbatim>\<open>for i, item in enumerate(visible_items)\<close>: the loop of the execute callback, from
  index \<open>i\<close> on.
\<close>

fun export_loop :: "host \<Rightarrow> pystr \<Rightarrow> pystr \<Rightarrow> nat \<Rightarrow> entity list \<Rightarrow> unit io" where
  "export_loop h folder export_format i [] = ret ()"
| "export_loop h folder export_format i (item # items) =
     bnd (export_entity h item folder export_format) (\<lambda>_.
     bnd (host_call h (SetProgressValue (i + 1))) (\<lambda>_.
     export_loop h folder export_format (i + 1) items))"

definition CommandExecuteHandler_body :: "host \<Rightarrow> unit io" where
  "CommandExecuteHandler_body h =
     (let design = activeProduct h;
          root = rootComponent design;
          cmdInputs = commandInputs h;
          export_components = exportComponents cmdInputs;
          export_bodies = exportBodies cmdInputs;
          export_format = fileFormat cmdInputs;
          visible_items = get_visible_entities root export_components export_bodies
      in bnd (selectFolderDialog h (lit ''Select folder for exported files'')) (\<lambda>folder.
         if folder = [] then ret ()
         else
           bnd (host_call h CreateProgressDialog) (\<lambda>_.
           bnd (host_call h (SetIsBackgroundTranslucent False)) (\<lambda>_.
           bnd (host_call h (ProgressShow (lit ''Exporting files'') (lit ''Exporting...'')
                  0 (length visible_items) 1)) (\<lambda>_.
           bnd (export_loop h folder export_format 0 visible_items) (\<lambda>_.
           bnd (host_call h ProgressHide) (\<lambda>_.
           messageBox h (lit ''Exported '' @ py_str (length visible_items)
                         @ lit '' files successfully.''))))))))"

definition CommandExecuteHandler_notify :: "host \<Rightarrow> unit io" where
  "CommandExecuteHandler_notify h =
     try_except (CommandExecuteHandler_body h)
       (\<lambda>x. messageBox h (lit ''Failed in CommandExecuteHandler:'' @ [10] @ format_exc x))"

subsection \<open>Vocabulary of the statements\<close>

text \<open>
  The combinations the dispatch supports: a component with one of the four format tags, a
  body with \<^verbatim>\<open>STL\<close>. The format a constructor stands for and the file path it was
  given are read off the options.
\<close>

definition supported :: "entity \<Rightarrow> pystr \<Rightarrow> bool" where
  "supported entity export_format =
     (case entity of
        Component cmp \<Rightarrow>
          export_format \<in> set [lit ''STEP'', lit ''IGES'', lit ''SAT'', lit ''STL'']
      | BRepBody b \<Rightarrow> export_format = lit ''STL'')"

fun options_format :: "export_options \<Rightarrow> pystr" where
  "options_format (STEPExportOptions p c) = lit ''STEP''"
| "options_format (IGESExportOptions p c) = lit ''IGES''"
| "options_format (SATExportOptions p c) = lit ''SAT''"
| "options_format (STLExportOptions g p) = lit ''STL''"

fun options_path :: "export_options \<Rightarrow> pystr" where
  "options_path (STEPExportOptions p c) = p"
| "options_path (IGESExportOptions p c) = p"
| "options_path (SATExportOptions p c) = p"
| "options_path (STLExportOptions g p) = p"


text \<open>
  The calls one \<^verbatim>\<open>export_entity\<close> makes when each of them returns, and the calls of the
  loop over \<open>items\<close> from index \<open>i\<close> when each of them returns: item after item, the calls
  of its export and then the assignment of \<open>j + 1\<close> to the progress value.
\<close>

definition export_calls :: "host \<Rightarrow> entity \<Rightarrow> pystr \<Rightarrow> pystr \<Rightarrow> event list" where
  "export_calls h entity folder export_format =
     fst (export_entity (h\<lparr>raises := \<lambda>_ _. None\<rparr>) entity folder export_format [])"

definition loop_calls :: "host \<Rightarrow> pystr \<Rightarrow> pystr \<Rightarrow> nat \<Rightarrow> entity list \<Rightarrow> event list" where
  "loop_calls h folder export_format i items =
     concat (map (\<lambda>(j, item). export_calls h item folder export_format @ [SetProgressValue (j + 1)])
               (List.enumerate i items))"

text \<open>
  In the execute callback: the list \<^verbatim>\<open>visible_items\<close>, the four calls made before the
  loop, and the condition under which the loop is entered (a folder was chosen and each
  of the four calls returned).
\<close>

definition visible_items_of :: "host \<Rightarrow> entity list" where
  "visible_items_of h =
     get_visible_entities (rootComponent (activeProduct h))
       (exportComponents (commandInputs h)) (exportBodies (commandInputs h))"

definition prologue_calls :: "host \<Rightarrow> event list" where
  "prologue_calls h =
     [SelectFolderDialog (lit ''Select folder for exported files''),
      CreateProgressDialog,
      SetIsBackgroundTranslucent False,
      ProgressShow (lit ''Exporting files'') (lit ''Exporting...'') 0
        (length (visible_items_of h)) 1]"

definition prologue_returns :: "host \<Rightarrow> event list \<Rightarrow> bool" where
  "prologue_returns h tr =
     (folder_choice h \<noteq> []
      \<and> raises h tr (prologue_calls h ! 0) = None
      \<and> raises h (tr @ take 1 (prologue_calls h)) (prologue_calls h ! 1) = None
      \<and> raises h (tr @ take 2 (prologue_calls h)) (prologue_calls h ! 2) = None
      \<and> raises h (tr @ take 3 (prologue_calls h)) (prologue_calls h ! 3) = None)"

subsection \<open>A small design for concrete runs\<close>

text \<open>
  Four components, one of them hidden and one with a name that needs sanitising; the
  first holds a hidden and a visible body. The host of a run is given the input values,
  the chosen folder and its failures: none, a \<^verbatim>\<open>RuntimeError\<close> at the call number \<open>n\<close>
  or at every call, or such failures with the message box spared.
\<close>

definition ascii_only :: ucd where
  "ascii_only = \<lparr>alnum_above_ascii = (\<lambda>_. False), space_above_ascii = (\<lambda>_. False)\<rparr>"

definition lid :: body where
  "lid = \<lparr>body_name = lit ''lid'', body_isVisible = True\<rparr>"

definition screw :: body where
  "screw = \<lparr>body_name = lit ''screw'', body_isVisible = False\<rparr>"

definition base :: component where
  "base = \<lparr>comp_name = lit ''base'', comp_isVisible = True, bRepBodies = [screw, lid]\<rparr>"

definition arm :: component where
  "arm = \<lparr>comp_name = lit ''arm/2 '', comp_isVisible = True, bRepBodies = []\<rparr>"

definition jig :: component where
  "jig = \<lparr>comp_name = lit ''jig'', comp_isVisible = False, bRepBodies = []\<rparr>"

definition cap :: component where
  "cap = \<lparr>comp_name = lit ''cap'', comp_isVisible = True, bRepBodies = []\<rparr>"

definition never :: "event list \<Rightarrow> event \<Rightarrow> py_exn option" where
  "never tr c = None"

definition at_call :: "nat \<Rightarrow> event list \<Rightarrow> event \<Rightarrow> py_exn option" where
  "at_call n tr c = (if length tr = n then Some (Raised (lit ''RuntimeError'')) else None)"

definition every_call :: "event list \<Rightarrow> event \<Rightarrow> py_exn option" where
  "every_call tr c = Some (Raised (lit ''RuntimeError''))"

definition spare_box ::
  "(event list \<Rightarrow> event \<Rightarrow> py_exn option) \<Rightarrow> event list \<Rightarrow> event \<Rightarrow> py_exn option" where
  "spare_box r tr c = (case c of MessageBox msg \<Rightarrow> None | _ \<Rightarrow> r tr c)"

definition demo_host ::
  "command_inputs \<Rightarrow> pystr \<Rightarrow> (event list \<Rightarrow> event \<Rightarrow> py_exn option) \<Rightarrow> host" where
  "demo_host inputs folder r =
     \<lparr>unicode = ascii_only,
      os_path_join = (\<lambda>a b. a @ lit ''/'' @ b),
      activeProduct = \<lparr>rootComponent = \<lparr>allComponents = [base, arm, jig, cap]\<rparr>\<rparr>,
      commandInputs = inputs,
      folder_choice = folder,
      raises = r\<rparr>"

section \<open>Properties\<close>

declare py_str.simps [simp del]

lemmas io_defs = Let_def ret_def bnd_def host_call_def emit_def messageBox_def create_def
  selectFolderDialog_def try_except_def

lemmas helper_defs = sanitize_filename_def rstrip_def isalnum_def isspace_def
  get_file_extension_def get_visible_entities_def

lemmas demo_defs = ascii_only_def lid_def screw_def base_def arm_def jig_def cap_def never_def
  at_call_def every_call_def spare_box_def demo_host_def

subsection \<open>The visibility scan\<close>

lemma append_visible_components_eq:
  "append_visible_components comps acc = acc @ map Component (filter comp_isVisible comps)"
  by (induction comps arbitrary: acc) simp_all

lemma append_visible_bodies_of_eq:
  "append_visible_bodies_of bs acc = acc @ map BRepBody (filter body_isVisible bs)"
  by (induction bs arbitrary: acc) simp_all

lemma append_visible_bodies_eq:
  "append_visible_bodies comps acc =
     acc @ map BRepBody (filter body_isVisible (concat (map bRepBodies comps)))"
  by (induction comps arbitrary: acc) (simp_all add: append_visible_bodies_of_eq)

text \<open>
  Claim C3. For every root component and every pair of booleans,
  \<^verbatim>\<open>get_visible_entities\<close> returns the components of \<^verbatim>\<open>allComponents\<close> whose visibility
  flag is set, in their order, when \<^verbatim>\<open>export_components\<close> holds, followed by the bodies
  of those components' \<^verbatim>\<open>bRepBodies\<close> whose visibility flag is set, in their order, when
  \<^verbatim>\<open>export_bodies\<close> holds; with both booleans false it returns the empty list.
\<close>

theorem get_visible_entities_spec:
  "get_visible_entities root_comp export_components export_bodies =
     (if export_components
      then map Component (filter comp_isVisible (allComponents root_comp)) else [])
     @ (if export_bodies
        then map BRepBody
               (filter body_isVisible (concat (map bRepBodies (allComponents root_comp))))
        else [])
   \<and> get_visible_entities root_comp False False = []"
  by (simp add: get_visible_entities_def append_visible_components_eq append_visible_bodies_eq)

subsection \<open>The filename sanitiser\<close>

lemma rstrip_split: "s = rstrip U s @ rev (takeWhile (isspace U) (rev s))"
proof -
  have "rstrip U s @ rev (takeWhile (isspace U) (rev s)) =
          rev (takeWhile (isspace U) (rev s) @ dropWhile (isspace U) (rev s))"
    by (simp only: rstrip_def rev_append)
  also have "\<dots> = rev (rev s)"
    by (simp only: takeWhile_dropWhile_id)
  finally show ?thesis by simp
qed

lemma rstrip_last: "rstrip U s \<noteq> [] \<Longrightarrow> \<not> isspace U (last (rstrip U s))"
  by (simp add: rstrip_def last_rev hd_dropWhile)

lemma rstrip_idem: "rstrip U (rstrip U s) = rstrip U s"
  by (simp add: rstrip_def)

lemma set_rstrip: "set (rstrip U s) \<subseteq> set s"
  using set_dropWhileD [of _ "isspace U" "rev s"] by (auto simp: rstrip_def)

lemma allowed_chars:
  "c \<in> set (lit '' ._-'') \<longleftrightarrow> c = 32 \<or> c = 46 \<or> c = 95 \<or> c = 45"
  by (simp add: lit_def)

lemma all_takeWhile: "list_all P (rev (takeWhile P xs))"
  by (induction xs) simp_all

text \<open>
  Claim C4. For every input string, \<^verbatim>\<open>sanitize_filename\<close> returns the subsequence of the
  characters that are alphanumeric or one of space (32), \<^verbatim>\<open>.\<close> (46), \<^verbatim>\<open>_\<close> (95) and
  \<^verbatim>\<open>-\<close> (45), in their order, with the trailing whitespace removed: the kept characters
  are the result followed by whitespace only, and the result does not end in whitespace.
\<close>

theorem sanitize_filename_spec:
  "\<exists>ws. filter (\<lambda>c. isalnum U c \<or> c = 32 \<or> c = 46 \<or> c = 95 \<or> c = 45) name
            = sanitize_filename U name @ ws
      \<and> list_all (isspace U) ws
      \<and> (sanitize_filename U name = [] \<or> \<not> isspace U (last (sanitize_filename U name)))"
proof -
  let ?kept = "filter (\<lambda>c. isalnum U c \<or> c = 32 \<or> c = 46 \<or> c = 95 \<or> c = 45) name"
  let ?ws = "rev (takeWhile (isspace U) (rev ?kept))"
  have s: "sanitize_filename U name = rstrip U ?kept"
    by (simp only: sanitize_filename_def allowed_chars)
  have "?kept = sanitize_filename U name @ ?ws"
    unfolding s by (rule rstrip_split)
  moreover have "list_all (isspace U) ?ws"
    by (rule all_takeWhile)
  moreover have "sanitize_filename U name = [] \<or> \<not> isspace U (last (sanitize_filename U name))"
    unfolding s using rstrip_last by blast
  ultimately show ?thesis by blast
qed

theorem sanitize_filename_spec_witness:
  "sanitize_filename ascii_only (lit ''arm/2: v_1-b  '') = lit ''arm2 v_1-b''
   \<and> \<not> isspace ascii_only (last (sanitize_filename ascii_only (lit ''arm/2: v_1-b  '')))
   \<and> (\<exists>ws. filter (\<lambda>c. isalnum ascii_only c \<or> c = 32 \<or> c = 46 \<or> c = 95 \<or> c = 45)
               (lit ''arm/2: v_1-b  '')
              = sanitize_filename ascii_only (lit ''arm/2: v_1-b  '') @ ws
            \<and> list_all (isspace ascii_only) ws)"
proof -
  have v: "sanitize_filename ascii_only (lit ''arm/2: v_1-b  '') = lit ''arm2 v_1-b''"
    by (simp add: helper_defs ascii_only_def lit_def)
  have l: "\<not> isspace ascii_only (last (lit ''arm2 v_1-b''))"
    by (simp add: isspace_def lit_def)
  from sanitize_filename_spec [of ascii_only "lit ''arm/2: v_1-b  ''"]
  obtain ws where
    "filter (\<lambda>c. isalnum ascii_only c \<or> c = 32 \<or> c = 46 \<or> c = 95 \<or> c = 45)
       (lit ''arm/2: v_1-b  '') = sanitize_filename ascii_only (lit ''arm/2: v_1-b  '') @ ws"
    and "list_all (isspace ascii_only) ws"
    by blast
  with v l show ?thesis by (simp only: ) blast
qed

text \<open>
  Claim C9. \<^verbatim>\<open>sanitize_filename\<close> is idempotent: sanitising a sanitised name changes
  nothing.
\<close>

theorem sanitize_filename_idem:
  "sanitize_filename U (sanitize_filename U s) = sanitize_filename U s"
proof -
  let ?ok = "\<lambda>c. isalnum U c \<or> c \<in> set (lit '' ._-'')"
  have "set (sanitize_filename U s) \<subseteq> set (filter ?ok s)"
    unfolding sanitize_filename_def by (rule set_rstrip)
  then have "\<forall>c \<in> set (sanitize_filename U s). ?ok c" by auto
  then have "filter ?ok (sanitize_filename U s) = sanitize_filename U s"
    by (simp only: filter_id_conv)
  then have "sanitize_filename U (sanitize_filename U s) = rstrip U (sanitize_filename U s)"
    by (simp add: sanitize_filename_def)
  also have "\<dots> = sanitize_filename U s"
    by (simp add: sanitize_filename_def rstrip_idem)
  finally show ?thesis .
qed

subsection \<open>The export dispatch\<close>

lemma export_entity_supported:
  assumes "supported entity export_format"
  shows "\<exists>options. options_format options = export_format
           \<and> options_path options = os_path_join h folder
                 (sanitize_filename (unicode h) (entity_name entity) @ lit ''.''
                    @ get_file_extension export_format)
           \<and> export_entity h entity folder export_format tr =
               (case raises h tr (Create options) of
                  Some x \<Rightarrow> (tr @ [Create options], Inl x)
                | None \<Rightarrow>
                    (tr @ [Create options, Execute options],
                     case raises h (tr @ [Create options]) (Execute options) of
                       Some x \<Rightarrow> Inl x
                     | None \<Rightarrow> Inr ()))"
proof -
  let ?path = "os_path_join h folder
                 (sanitize_filename (unicode h) (entity_name entity) @ lit ''.''
                    @ get_file_extension export_format)"
  show ?thesis
  proof (cases entity)
    case (Component cmp)
    with assms consider "export_format = lit ''STEP''" | "export_format = lit ''IGES''"
      | "export_format = lit ''SAT''" | "export_format = lit ''STL''"
      by (auto simp: supported_def)
    then show ?thesis
    proof cases
      case 1
      show ?thesis
        by (rule exI [of _ "STEPExportOptions ?path cmp"])
           (simp add: 1 Component export_entity_def io_defs split: option.splits)
    next
      case 2
      show ?thesis
        by (rule exI [of _ "IGESExportOptions ?path cmp"])
           (simp add: 2 Component export_entity_def io_defs lit_def split: option.splits)
    next
      case 3
      show ?thesis
        by (rule exI [of _ "SATExportOptions ?path cmp"])
           (simp add: 3 Component export_entity_def io_defs lit_def split: option.splits)
    next
      case 4
      show ?thesis
        by (rule exI [of _ "STLExportOptions (bRepBodies cmp) ?path"])
           (simp add: 4 Component export_entity_def io_defs lit_def split: option.splits)
    qed
  next
    case (BRepBody b)
    with assms have f: "export_format = lit ''STL''"
      by (simp add: supported_def)
    show ?thesis
      by (rule exI [of _ "STLExportOptions [b] ?path"])
         (simp add: f BRepBody export_entity_def io_defs split: option.splits)
  qed
qed

lemma export_entity_unsupported:
  assumes "\<not> supported entity export_format"
  shows "export_entity h entity folder export_format tr =
           (let box = MessageBox (case entity of
                        Component cmp \<Rightarrow> lit ''Unsupported format: '' @ export_format
                      | BRepBody b \<Rightarrow> lit ''Bodies can only be exported as STL'')
            in (tr @ [box], case raises h tr box of Some x \<Rightarrow> Inl x | None \<Rightarrow> Inr ()))"
  using assms
  by (cases entity) (simp_all add: supported_def export_entity_def io_defs split: option.splits)

text \<open>
  Claim C1, as stated, fails: on an unsupported combination \<^verbatim>\<open>export_entity\<close> does not
  return when the message box raises. Here the host raises at the first call, and the
  exception of the message box leaves \<^verbatim>\<open>export_entity\<close>.
\<close>

theorem export_entity_box_raises:
  "\<not> supported (Component base) (lit ''OBJ'')
   \<and> export_entity
         (demo_host \<lparr>exportComponents = True, exportBodies = True, fileFormat = lit ''OBJ''\<rparr>
            (lit ''out'') (at_call 0))
         (Component base) (lit ''out'') (lit ''OBJ'') []
       = ([MessageBox (lit ''Unsupported format: OBJ'')], Inl (Raised (lit ''RuntimeError'')))"
proof -
  have "\<not> supported (Component base) (lit ''OBJ'')"
    by (simp add: supported_def lit_def)
  moreover have "export_entity
         (demo_host \<lparr>exportComponents = True, exportBodies = True, fileFormat = lit ''OBJ''\<rparr>
            (lit ''out'') (at_call 0))
         (Component base) (lit ''out'') (lit ''OBJ'') []
       = ([MessageBox (lit ''Unsupported format: OBJ'')], Inl (Raised (lit ''RuntimeError'')))"
    by (simp add: export_entity_def io_defs demo_host_def at_call_def lit_def)
  ultimately show ?thesis by blast
qed

text \<open>
  Claim C1, amended. For every entity and format tag, \<^verbatim>\<open>export_entity\<close> on a supported
  combination (a component with STEP, IGES, SAT or STL, a body with STL) calls exactly one
  of the four export-options constructors, the one of the format tag, and, when the
  constructor returns, asks the export manager to execute the options it made; on every
  other combination its one call is the message box, with no call of the export manager,
  and it returns when the message box returns, while an exception of the message box
  leaves \<^verbatim>\<open>export_entity\<close>.
\<close>

theorem export_entity_dispatch:
  "(supported entity export_format \<longrightarrow>
      (\<exists>options. options_format options = export_format
         \<and> export_entity h entity folder export_format tr =
             (case raises h tr (Create options) of
                Some x \<Rightarrow> (tr @ [Create options], Inl x)
              | None \<Rightarrow>
                  (tr @ [Create options, Execute options],
                   case raises h (tr @ [Create options]) (Execute options) of
                     Some x \<Rightarrow> Inl x
                   | None \<Rightarrow> Inr ()))))
   \<and> (\<not> supported entity export_format \<longrightarrow>
        export_entity h entity folder export_format tr =
          (let box = MessageBox (case entity of
                       Component cmp \<Rightarrow> lit ''Unsupported format: '' @ export_format
                     | BRepBody b \<Rightarrow> lit ''Bodies can only be exported as STL'')
           in (tr @ [box], case raises h tr box of Some x \<Rightarrow> Inl x | None \<Rightarrow> Inr ())))"
proof (intro conjI impI)
  assume "supported entity export_format"
  from export_entity_supported [OF this, of h folder tr]
  show "\<exists>options. options_format options = export_format
         \<and> export_entity h entity folder export_format tr =
             (case raises h tr (Create options) of
                Some x \<Rightarrow> (tr @ [Create options], Inl x)
              | None \<Rightarrow>
                  (tr @ [Create options, Execute options],
                   case raises h (tr @ [Create options]) (Execute options) of
                     Some x \<Rightarrow> Inl x
                   | None \<Rightarrow> Inr ()))"
    by blast
next
  assume "\<not> supported entity export_format"
  then show "export_entity h entity folder export_format tr =
          (let box = MessageBox (case entity of
                       Component cmp \<Rightarrow> lit ''Unsupported format: '' @ export_format
                     | BRepBody b \<Rightarrow> lit ''Bodies can only be exported as STL'')
           in (tr @ [box], case raises h tr box of Some x \<Rightarrow> Inl x | None \<Rightarrow> Inr ()))"
    by (rule export_entity_unsupported)
qed

theorem export_entity_dispatch_witness:
  "supported (Component arm) (lit ''STEP'')
   \<and> export_entity
         (demo_host \<lparr>exportComponents = True, exportBodies = True, fileFormat = lit ''STEP''\<rparr>
            (lit ''out'') never)
         (Component arm) (lit ''out'') (lit ''STEP'') []
       = ([Create (STEPExportOptions (lit ''out/arm2.step'') arm),
           Execute (STEPExportOptions (lit ''out/arm2.step'') arm)], Inr ())
   \<and> \<not> supported (BRepBody lid) (lit ''STEP'')
   \<and> export_entity
         (demo_host \<lparr>exportComponents = True, exportBodies = True, fileFormat = lit ''STEP''\<rparr>
            (lit ''out'') never)
         (BRepBody lid) (lit ''out'') (lit ''STEP'') []
       = ([MessageBox (lit ''Bodies can only be exported as STL'')], Inr ())"
proof -
  let ?h = "demo_host \<lparr>exportComponents = True, exportBodies = True, fileFormat = lit ''STEP''\<rparr>
              (lit ''out'') never"
  have s: "supported (Component arm) (lit ''STEP'')"
    by (simp add: supported_def)
  have n: "\<not> supported (BRepBody lid) (lit ''STEP'')"
    by (simp add: supported_def lit_def)
  from export_entity_dispatch [of "Component arm" "lit ''STEP''" ?h "lit ''out''" "[]"] s
  obtain options where o: "options_format options = lit ''STEP''"
    and e: "export_entity ?h (Component arm) (lit ''out'') (lit ''STEP'') [] =
             (case raises ?h [] (Create options) of
                Some x \<Rightarrow> ([] @ [Create options], Inl x)
              | None \<Rightarrow>
                  ([] @ [Create options, Execute options],
                   case raises ?h ([] @ [Create options]) (Execute options) of
                     Some x \<Rightarrow> Inl x
                   | None \<Rightarrow> Inr ()))"
    by blast
  have r: "export_entity ?h (Component arm) (lit ''out'') (lit ''STEP'') []
             = ([Create (STEPExportOptions (lit ''out/arm2.step'') arm),
                 Execute (STEPExportOptions (lit ''out/arm2.step'') arm)], Inr ())"
    by (simp add: export_entity_def io_defs helper_defs demo_defs lit_def)
  have q: "raises ?h [] (MessageBox (lit ''Bodies can only be exported as STL'')) = None"
    by (simp add: demo_host_def never_def)
  from export_entity_dispatch [of "BRepBody lid" "lit ''STEP''" ?h "lit ''out''" "[]"] n q
  have m: "export_entity ?h (BRepBody lid) (lit ''out'') (lit ''STEP'') []
             = ([MessageBox (lit ''Bodies can only be exported as STL'')], Inr ())"
    by simp
  from s r n m show ?thesis by blast
qed

text \<open>
  Claim C8. The extension is \<^verbatim>\<open>step\<close> for STEP, \<^verbatim>\<open>stl\<close> for STL, \<^verbatim>\<open>igs\<close> for IGES,
  \<^verbatim>\<open>sat\<close> for SAT and \<^verbatim>\<open>stp\<close> for any other format string; and for every supported
  export the file path handed to the export-options constructor is the chosen folder
  joined with the sanitised name of the entity, a dot and the extension of the format.
\<close>

theorem export_filepath:
  "get_file_extension export_format =
     (if export_format = lit ''STEP'' then lit ''step''
      else if export_format = lit ''STL'' then lit ''stl''
      else if export_format = lit ''IGES'' then lit ''igs''
      else if export_format = lit ''SAT'' then lit ''sat''
      else lit ''stp'')
   \<and> (supported entity export_format \<longrightarrow>
        (\<exists>options rest.
           fst (export_entity h entity folder export_format tr) = tr @ Create options # rest
           \<and> (rest = [] \<or> rest = [Execute options])
           \<and> options_path options =
               os_path_join h folder
                 (sanitize_filename (unicode h) (entity_name entity) @ lit ''.''
                    @ get_file_extension export_format)))"
proof (intro conjI impI)
  show "get_file_extension export_format =
     (if export_format = lit ''STEP'' then lit ''step''
      else if export_format = lit ''STL'' then lit ''stl''
      else if export_format = lit ''IGES'' then lit ''igs''
      else if export_format = lit ''SAT'' then lit ''sat''
      else lit ''stp'')"
    by (simp add: get_file_extension_def)
next
  assume "supported entity export_format"
  from export_entity_supported [OF this, of h folder tr]
  obtain options where
    p: "options_path options =
          os_path_join h folder
            (sanitize_filename (unicode h) (entity_name entity) @ lit ''.''
               @ get_file_extension export_format)"
    and e: "export_entity h entity folder export_format tr =
              (case raises h tr (Create options) of
                 Some x \<Rightarrow> (tr @ [Create options], Inl x)
               | None \<Rightarrow>
                   (tr @ [Create options, Execute options],
                    case raises h (tr @ [Create options]) (Execute options) of
                      Some x \<Rightarrow> Inl x
                    | None \<Rightarrow> Inr ()))"
    by blast
  show "\<exists>options rest.
           fst (export_entity h entity folder export_format tr) = tr @ Create options # rest
           \<and> (rest = [] \<or> rest = [Execute options])
           \<and> options_path options =
               os_path_join h folder
                 (sanitize_filename (unicode h) (entity_name entity) @ lit ''.''
                    @ get_file_extension export_format)"
  proof (cases "raises h tr (Create options)")
    case None
    with e have "fst (export_entity h entity folder export_format tr)
                   = tr @ Create options # [Execute options]"
      by simp
    with p show ?thesis by blast
  next
    case (Some x)
    with e have "fst (export_entity h entity folder export_format tr) = tr @ Create options # []"
      by simp
    with p show ?thesis by blast
  qed
qed

theorem export_filepath_witness:
  "supported (Component arm) (lit ''STL'')
   \<and> fst (export_entity
            (demo_host \<lparr>exportComponents = True, exportBodies = True, fileFormat = lit ''STL''\<rparr>
               (lit ''out'') never)
            (Component arm) (lit ''out'') (lit ''STL'') [])
       = [Create (STLExportOptions [] (lit ''out/arm2.stl'')),
          Execute (STLExportOptions [] (lit ''out/arm2.stl''))]
   \<and> lit ''out/arm2.stl'' = lit ''out'' @ lit ''/'' @ lit ''arm2'' @ lit ''.'' @ lit ''stl''
   \<and> sanitize_filename ascii_only (lit ''arm/2 '') = lit ''arm2''
   \<and> get_file_extension (lit ''OBJ'') = lit ''stp''"
proof -
  let ?h = "demo_host \<lparr>exportComponents = True, exportBodies = True, fileFormat = lit ''STL''\<rparr>
              (lit ''out'') never"
  have s: "supported (Component arm) (lit ''STL'')"
    by (simp add: supported_def)
  have x: "get_file_extension (lit ''OBJ'') = lit ''stp''"
    using export_filepath [of "lit ''OBJ''" "Component arm" ?h "lit ''out''" "[]"]
    by (simp add: lit_def)
  have r: "fst (export_entity ?h (Component arm) (lit ''out'') (lit ''STL'') [])
       = [Create (STLExportOptions [] (lit ''out/arm2.stl'')),
          Execute (STLExportOptions [] (lit ''out/arm2.stl''))]"
    by (simp add: export_entity_def io_defs helper_defs demo_defs lit_def)
  have c: "lit ''out/arm2.stl'' = lit ''out'' @ lit ''/'' @ lit ''arm2'' @ lit ''.'' @ lit ''stl''"
    by (simp add: lit_def)
  have n: "sanitize_filename ascii_only (lit ''arm/2 '') = lit ''arm2''"
    by (simp add: helper_defs ascii_only_def lit_def)
  from export_filepath [of "lit ''STL''" "Component arm" ?h "lit ''out''" "[]"] s r c n x
  show ?thesis by blast
qed

subsection \<open>The event callbacks\<close>



lemma try_except_raised:
  "body tr = (tr', Inl x) \<Longrightarrow>
     try_except body (\<lambda>x. messageBox h (msg x)) tr =
       (let box = MessageBox (msg x)
        in (tr' @ [box], case raises h tr' box of Some y \<Rightarrow> Inl y | None \<Rightarrow> Inr ()))"
  by (simp add: io_defs)

lemma try_except_box_returns:
  "(\<forall>tr' m. raises h tr' (MessageBox m) = None) \<Longrightarrow>
     snd (try_except body (\<lambda>x. messageBox h (msg x)) tr) = Inr ()"
  by (simp add: io_defs split: prod.splits sum.splits)

lemma bnd_host_call:
  "bnd (host_call h c) f tr =
     (case raises h tr c of Some x \<Rightarrow> (tr @ [c], Inl x) | None \<Rightarrow> f () (tr @ [c]))"
  by (simp add: bnd_def host_call_def split: option.splits)

lemma bnd_ret: "bnd (ret v) f tr = f v tr"
  by (simp add: bnd_def ret_def)

lemma bnd_assoc: "bnd (bnd m f) g tr = bnd m (\<lambda>v. bnd (f v) g) tr"
  by (simp add: bnd_def split: prod.splits sum.splits)

lemma created_body_fails_first:
  "raises h [] (AddBoolValueInput (lit ''exportComponents'') (lit ''Export Components'') True)
     = Some x \<Longrightarrow>
   CommandCreatedHandler_body h [] =
     ([AddBoolValueInput (lit ''exportComponents'') (lit ''Export Components'') True], Inl x)"
  by (simp add: CommandCreatedHandler_body_def bnd_host_call)

lemma changed_body_fails_first:
  "raises (demo_host \<lparr>exportComponents = True, exportBodies = True, fileFormat = f\<rparr> folder r)
     [] (SetText (lit ''fileCount'') (lit ''4'')) = Some x \<Longrightarrow>
   InputChangedHandler_body
     (demo_host \<lparr>exportComponents = True, exportBodies = True, fileFormat = f\<rparr> folder r) [] =
     ([SetText (lit ''fileCount'') (lit ''4'')], Inl x)"
proof -
  let ?h = "demo_host \<lparr>exportComponents = True, exportBodies = True, fileFormat = f\<rparr> folder r"
  assume r: "raises ?h [] (SetText (lit ''fileCount'') (lit ''4'')) = Some x"
  have "length (get_visible_entities (rootComponent (activeProduct ?h))
           (exportComponents (commandInputs ?h)) (exportBodies (commandInputs ?h))) = 4"
    by (simp add: get_visible_entities_def demo_defs)
  moreover have "py_str 4 = lit ''4''"
    by (subst py_str.simps) (simp add: lit_def)
  ultimately show ?thesis
    using r by (simp add: InputChangedHandler_body_def host_call_def Let_def)
qed

lemma execute_body_fails_first:
  "raises h [] (SelectFolderDialog (lit ''Select folder for exported files'')) = Some x \<Longrightarrow>
   CommandExecuteHandler_body h [] =
     ([SelectFolderDialog (lit ''Select folder for exported files'')], Inl x)"
  by (simp add: CommandExecuteHandler_body_def Let_def selectFolderDialog_def bnd_assoc
        bnd_host_call)

text \<open>
  Claim C5, as stated, fails: when the message box of an \<^verbatim>\<open>except\<close> clause raises,
  its exception is passed on to the caller of the callback. Here the host raises at every
  call: the first call of each body raises, the message box raises in turn, and each of
  the three callbacks ends with that exception.
\<close>

theorem callbacks_box_raises:
  "CommandCreatedHandler_notify
       (demo_host \<lparr>exportComponents = True, exportBodies = True, fileFormat = lit ''STEP''\<rparr>
          (lit ''out'') every_call) []
     = ([AddBoolValueInput (lit ''exportComponents'') (lit ''Export Components'') True,
         MessageBox (lit ''Failed in CommandCreatedHandler:'' @ [10] @ lit ''RuntimeError'')],
        Inl (Raised (lit ''RuntimeError'')))
   \<and> InputChangedHandler_notify
       (demo_host \<lparr>exportComponents = True, exportBodies = True, fileFormat = lit ''STEP''\<rparr>
          (lit ''out'') every_call) []
     = ([SetText (lit ''fileCount'') (lit ''4''),
         MessageBox (lit ''Failed in InputChangedHandler:'' @ [10] @ lit ''RuntimeError'')],
        Inl (Raised (lit ''RuntimeError'')))
   \<and> CommandExecuteHandler_notify
       (demo_host \<lparr>exportComponents = True, exportBodies = True, fileFormat = lit ''STEP''\<rparr>
          (lit ''out'') every_call) []
     = ([SelectFolderDialog (lit ''Select folder for exported files''),
         MessageBox (lit ''Failed in CommandExecuteHandler:'' @ [10] @ lit ''RuntimeError'')],
        Inl (Raised (lit ''RuntimeError'')))"
proof -
  let ?h = "demo_host \<lparr>exportComponents = True, exportBodies = True, fileFormat = lit ''STEP''\<rparr>
              (lit ''out'') every_call"
  have r: "\<And>tr c. raises ?h tr c = Some (Raised (lit ''RuntimeError''))"
    by (simp add: demo_host_def every_call_def)
  have "CommandCreatedHandler_notify ?h [] =
          ([AddBoolValueInput (lit ''exportComponents'') (lit ''Export Components'') True,
            MessageBox (lit ''Failed in CommandCreatedHandler:'' @ [10] @ lit ''RuntimeError'')],
           Inl (Raised (lit ''RuntimeError'')))"
    unfolding CommandCreatedHandler_notify_def
    by (simp add: try_except_raised [where body = "CommandCreatedHandler_body ?h" and tr = "[]",
          OF created_body_fails_first [OF r]] r Let_def)
  moreover have "InputChangedHandler_notify ?h [] =
          ([SetText (lit ''fileCount'') (lit ''4''),
            MessageBox (lit ''Failed in InputChangedHandler:'' @ [10] @ lit ''RuntimeError'')],
           Inl (Raised (lit ''RuntimeError'')))"
    unfolding InputChangedHandler_notify_def
    by (simp add: try_except_raised [where body = "InputChangedHandler_body ?h" and tr = "[]",
          OF changed_body_fails_first [OF r]] r Let_def)
  moreover have "CommandExecuteHandler_notify ?h [] =
          ([SelectFolderDialog (lit ''Select folder for exported files''),
            MessageBox (lit ''Failed in CommandExecuteHandler:'' @ [10] @ lit ''RuntimeError'')],
           Inl (Raised (lit ''RuntimeError'')))"
    unfolding CommandExecuteHandler_notify_def
    by (simp add: try_except_raised [where body = "CommandExecuteHandler_body ?h" and tr = "[]",
          OF execute_body_fails_first [OF r]] r Let_def)
  ultimately show ?thesis by blast
qed

text \<open>
  Claim C5, amended. For every exception raised inside the body of one of the three
  callbacks, the callback catches it and, after the calls made up to it, calls the message
  box with the callback's name and the stack trace; the callback then returns when that
  message box returns, and passes on the exception of the message box when it raises. So
  on a host whose message box does not raise, none of the three callbacks passes an
  exception on to its caller.
\<close>

theorem callbacks_catch_body_exceptions:
  "(\<forall>tr' x. CommandCreatedHandler_body h tr = (tr', Inl x) \<longrightarrow>
      CommandCreatedHandler_notify h tr =
        (let box = MessageBox (lit ''Failed in CommandCreatedHandler:'' @ [10] @ format_exc x)
         in (tr' @ [box], case raises h tr' box of Some y \<Rightarrow> Inl y | None \<Rightarrow> Inr ())))
   \<and> (\<forall>tr' x. InputChangedHandler_body h tr = (tr', Inl x) \<longrightarrow>
      InputChangedHandler_notify h tr =
        (let box = MessageBox (lit ''Failed in InputChangedHandler:'' @ [10] @ format_exc x)
         in (tr' @ [box], case raises h tr' box of Some y \<Rightarrow> Inl y | None \<Rightarrow> Inr ())))
   \<and> (\<forall>tr' x. CommandExecuteHandler_body h tr = (tr', Inl x) \<longrightarrow>
      CommandExecuteHandler_notify h tr =
        (let box = MessageBox (lit ''Failed in CommandExecuteHandler:'' @ [10] @ format_exc x)
         in (tr' @ [box], case raises h tr' box of Some y \<Rightarrow> Inl y | None \<Rightarrow> Inr ())))
   \<and> ((\<forall>tr' m. raises h tr' (MessageBox m) = None) \<longrightarrow>
        snd (CommandCreatedHandler_notify h tr) = Inr ()
        \<and> snd (InputChangedHandler_notify h tr) = Inr ()
        \<and> snd (CommandExecuteHandler_notify h tr) = Inr ())"
  unfolding CommandCreatedHandler_notify_def InputChangedHandler_notify_def
    CommandExecuteHandler_notify_def
  by (intro conjI allI impI try_except_raised try_except_box_returns) simp_all

theorem callbacks_catch_body_exceptions_witness:
  "(\<forall>tr' m. raises (demo_host \<lparr>exportComponents = True, exportBodies = True, fileFormat = lit ''STEP''\<rparr>
          (lit ''out'') (spare_box every_call)) tr' (MessageBox m) = None)
   \<and> CommandCreatedHandler_body
       (demo_host \<lparr>exportComponents = True, exportBodies = True, fileFormat = lit ''STEP''\<rparr>
          (lit ''out'') (spare_box every_call)) []
     = ([AddBoolValueInput (lit ''exportComponents'') (lit ''Export Components'') True], Inl (Raised (lit ''RuntimeError'')))
   \<and> CommandCreatedHandler_notify
       (demo_host \<lparr>exportComponents = True, exportBodies = True, fileFormat = lit ''STEP''\<rparr>
          (lit ''out'') (spare_box every_call)) []
     = ([AddBoolValueInput (lit ''exportComponents'') (lit ''Export Components'') True,
         MessageBox (lit ''Failed in CommandCreatedHandler:'' @ [10] @ lit ''RuntimeError'')],
        Inr ())
   \<and> InputChangedHandler_notify
       (demo_host \<lparr>exportComponents = True, exportBodies = True, fileFormat = lit ''STEP''\<rparr>
          (lit ''out'') (spare_box every_call)) []
     = ([SetText (lit ''fileCount'') (lit ''4''),
         MessageBox (lit ''Failed in InputChangedHandler:'' @ [10] @ lit ''RuntimeError'')],
        Inr ())
   \<and> CommandExecuteHandler_notify
       (demo_host \<lparr>exportComponents = True, exportBodies = True, fileFormat = lit ''STEP''\<rparr>
          (lit ''out'') (spare_box every_call)) []
     = ([SelectFolderDialog (lit ''Select folder for exported files''),
         MessageBox (lit ''Failed in CommandExecuteHandler:'' @ [10] @ lit ''RuntimeError'')],
        Inr ())"
proof -
  let ?h = "demo_host \<lparr>exportComponents = True, exportBodies = True, fileFormat = lit ''STEP''\<rparr>
              (lit ''out'') (spare_box every_call)"
  note c = callbacks_catch_body_exceptions [of ?h "[]"]
  have q: "\<forall>tr' m. raises ?h tr' (MessageBox m) = None"
    by (simp add: demo_host_def spare_box_def)
  have 1: "CommandCreatedHandler_body ?h [] =
             ([AddBoolValueInput (lit ''exportComponents'') (lit ''Export Components'') True],
              Inl (Raised (lit ''RuntimeError'')))"
    by (rule created_body_fails_first) (simp add: demo_host_def spare_box_def every_call_def)
  have 2: "InputChangedHandler_body ?h [] =
             ([SetText (lit ''fileCount'') (lit ''4'')], Inl (Raised (lit ''RuntimeError'')))"
    by (rule changed_body_fails_first) (simp add: demo_host_def spare_box_def every_call_def)
  have 3: "CommandExecuteHandler_body ?h [] =
             ([SelectFolderDialog (lit ''Select folder for exported files'')],
              Inl (Raised (lit ''RuntimeError'')))"
    by (rule execute_body_fails_first) (simp add: demo_host_def spare_box_def every_call_def)
  from c 1 have "CommandCreatedHandler_notify ?h [] =
      (let box = MessageBox (lit ''Failed in CommandCreatedHandler:'' @ [10]
                               @ format_exc (Raised (lit ''RuntimeError'')))
       in ([AddBoolValueInput (lit ''exportComponents'') (lit ''Export Components'') True] @ [box],
           case raises ?h [AddBoolValueInput (lit ''exportComponents'') (lit ''Export Components'') True] box of
             Some y \<Rightarrow> Inl y | None \<Rightarrow> Inr ()))"
    by blast
  with q have 4: "CommandCreatedHandler_notify
       (demo_host \<lparr>exportComponents = True, exportBodies = True, fileFormat = lit ''STEP''\<rparr>
          (lit ''out'') (spare_box every_call)) []
     = ([AddBoolValueInput (lit ''exportComponents'') (lit ''Export Components'') True,
         MessageBox (lit ''Failed in CommandCreatedHandler:'' @ [10] @ lit ''RuntimeError'')],
        Inr ())"
    by (simp add: Let_def)
  from c 2 have "InputChangedHandler_notify ?h [] =
      (let box = MessageBox (lit ''Failed in InputChangedHandler:'' @ [10]
                               @ format_exc (Raised (lit ''RuntimeError'')))
       in ([SetText (lit ''fileCount'') (lit ''4'')] @ [box],
           case raises ?h [SetText (lit ''fileCount'') (lit ''4'')] box of
             Some y \<Rightarrow> Inl y | None \<Rightarrow> Inr ()))"
    by blast
  with q have 5: "InputChangedHandler_notify
       (demo_host \<lparr>exportComponents = True, exportBodies = True, fileFormat = lit ''STEP''\<rparr>
          (lit ''out'') (spare_box every_call)) []
     = ([SetText (lit ''fileCount'') (lit ''4''),
         MessageBox (lit ''Failed in InputChangedHandler:'' @ [10] @ lit ''RuntimeError'')],
        Inr ())"
    by (simp add: Let_def)
  from c 3 have "CommandExecuteHandler_notify ?h [] =
      (let box = MessageBox (lit ''Failed in CommandExecuteHandler:'' @ [10]
                               @ format_exc (Raised (lit ''RuntimeError'')))
       in ([SelectFolderDialog (lit ''Select folder for exported files'')] @ [box],
           case raises ?h [SelectFolderDialog (lit ''Select folder for exported files'')] box of
             Some y \<Rightarrow> Inl y | None \<Rightarrow> Inr ()))"
    by blast
  with q have 6: "CommandExecuteHandler_notify
       (demo_host \<lparr>exportComponents = True, exportBodies = True, fileFormat = lit ''STEP''\<rparr>
          (lit ''out'') (spare_box every_call)) []
     = ([SelectFolderDialog (lit ''Select folder for exported files''),
         MessageBox (lit ''Failed in CommandExecuteHandler:'' @ [10] @ lit ''RuntimeError'')],
        Inr ())"
    by (simp add: Let_def)
  from q 1 4 5 6 show ?thesis by blast
qed

text \<open>
  Claim C10. When the folder dialog returns an empty result, the execute callback returns
  at once: the dialog is the only call it makes, so nothing is exported, no progress dialog
  is created and no message box is shown.
\<close>

theorem cancelled_folder_dialog:
  assumes "raises h tr (SelectFolderDialog (lit ''Select folder for exported files'')) = None"
    and "folder_choice h = []"
  shows "CommandExecuteHandler_notify h tr =
           (tr @ [SelectFolderDialog (lit ''Select folder for exported files'')], Inr ())"
  using assms
  by (simp add: CommandExecuteHandler_notify_def CommandExecuteHandler_body_def io_defs)

theorem cancelled_folder_dialog_witness:
  "folder_choice
       (demo_host \<lparr>exportComponents = True, exportBodies = True, fileFormat = lit ''STL''\<rparr>
          [] never) = []
   \<and> CommandExecuteHandler_notify
       (demo_host \<lparr>exportComponents = True, exportBodies = True, fileFormat = lit ''STL''\<rparr>
          [] never) []
     = ([SelectFolderDialog (lit ''Select folder for exported files'')], Inr ())"
proof -
  let ?h = "demo_host \<lparr>exportComponents = True, exportBodies = True, fileFormat = lit ''STL''\<rparr>
              [] never"
  have r: "raises ?h [] (SelectFolderDialog (lit ''Select folder for exported files'')) = None"
    by (simp add: demo_host_def never_def)
  have f: "folder_choice ?h = []"
    by (simp add: demo_host_def)
  from cancelled_folder_dialog [OF r f] f show ?thesis by simp
qed

subsection \<open>The export loop\<close>

lemma export_entity_returned:
  "export_entity h entity folder export_format tr = (tr', Inr ()) \<Longrightarrow>
     tr' = tr @ export_calls h entity folder export_format"
  by (cases entity)
     (auto simp: export_calls_def export_entity_def io_defs split: if_splits option.splits)

lemma export_loop_append:
  "export_loop h folder export_format i (pre @ post) tr =
     (case export_loop h folder export_format i pre tr of
        (tr1, Inl x) \<Rightarrow> (tr1, Inl x)
      | (tr1, Inr _) \<Rightarrow> export_loop h folder export_format (i + length pre) post tr1)"
proof (induction pre arbitrary: i tr)
  case Nil
  show ?case by (simp add: ret_def)
next
  case (Cons item pre)
  show ?case
    by (simp add: bnd_def Cons.IH split: prod.splits sum.splits)
qed

lemma export_loop_returned:
  "export_loop h folder export_format i items tr = (tr', Inr ()) \<Longrightarrow>
     tr' = tr @ loop_calls h folder export_format i items"
proof (induction items arbitrary: i tr)
  case Nil
  then show ?case by (simp add: ret_def loop_calls_def)
next
  case (Cons item items)
  from Cons.prems obtain tr1 tr2 where
      e: "export_entity h item folder export_format tr = (tr1, Inr ())"
    and p: "host_call h (SetProgressValue (i + 1)) tr1 = (tr2, Inr ())"
    and l: "export_loop h folder export_format (i + 1) items tr2 = (tr', Inr ())"
    by (auto simp: bnd_def split: prod.splits sum.splits)
  from e have "tr1 = tr @ export_calls h item folder export_format"
    by (rule export_entity_returned)
  moreover from p have "tr2 = tr1 @ [SetProgressValue (i + 1)]"
    by (simp add: host_call_def)
  moreover from l have "tr' = tr2 @ loop_calls h folder export_format (i + 1) items"
    by (rule Cons.IH)
  ultimately show ?case
    by (simp add: loop_calls_def)
qed

lemma last_loop_calls:
  "items \<noteq> [] \<Longrightarrow>
     last (tr @ loop_calls h folder export_format i items) = SetProgressValue (i + length items)"
proof (induction items arbitrary: i tr rule: rev_induct)
  case Nil
  then show ?case by simp
next
  case (snoc item items)
  show ?case
    by (simp add: loop_calls_def enumerate_append_eq)
qed

lemma body_from_loop:
  assumes "prologue_returns h tr"
  shows "CommandExecuteHandler_body h tr =
           bnd (export_loop h (folder_choice h) (fileFormat (commandInputs h)) 0 (visible_items_of h))
             (\<lambda>_. bnd (host_call h ProgressHide)
                (\<lambda>_. messageBox h (lit ''Exported '' @ py_str (length (visible_items_of h))
                                   @ lit '' files successfully.'')))
             (tr @ prologue_calls h)"
  using assms
  by (simp add: prologue_returns_def prologue_calls_def visible_items_of_def
        CommandExecuteHandler_body_def Let_def selectFolderDialog_def
        bnd_assoc bnd_host_call bnd_ret)

text \<open>
  Claim C7. During command execution the visible items are exported one at a time, in the
  order of the list \<^verbatim>\<open>get_visible_entities\<close> returned: whenever the loop has completed
  its first iterations, over a prefix \<open>pre\<close> of the list, the calls made since the loop
  was entered are, item after item in that order, the calls of the item's export followed
  by the assignment of \<open>j + 1\<close> to the progress value for the item at index \<open>j\<close>; the last
  call is the assignment of the number of items processed; and the rest of the run is the
  loop over the remaining items from that index on, then the end of the callback.
\<close>

theorem export_loop_invariant:
  assumes "prologue_returns h tr"
    and "visible_items_of h = pre @ post"
    and "export_loop h (folder_choice h) (fileFormat (commandInputs h)) 0 pre
           (tr @ prologue_calls h) = (tr', Inr ())"
  shows "tr' = tr @ prologue_calls h
                 @ loop_calls h (folder_choice h) (fileFormat (commandInputs h)) 0 pre
         \<and> (pre \<noteq> [] \<longrightarrow> last tr' = SetProgressValue (length pre))
         \<and> CommandExecuteHandler_body h tr =
             bnd (export_loop h (folder_choice h) (fileFormat (commandInputs h)) (length pre) post)
               (\<lambda>_. bnd (host_call h ProgressHide)
                  (\<lambda>_. messageBox h (lit ''Exported '' @ py_str (length (visible_items_of h))
                                     @ lit '' files successfully.'')))
               tr'"
proof -
  let ?folder = "folder_choice h" and ?format = "fileFormat (commandInputs h)"
  have t: "tr' = (tr @ prologue_calls h) @ loop_calls h ?folder ?format 0 pre"
    using assms(3) by (rule export_loop_returned)
  have l: "pre \<noteq> [] \<longrightarrow> last tr' = SetProgressValue (length pre)"
    using last_loop_calls [of pre "tr @ prologue_calls h" h ?folder ?format 0]
    by (simp add: t)
  have "export_loop h ?folder ?format 0 (pre @ post) (tr @ prologue_calls h) =
          export_loop h ?folder ?format (length pre) post tr'"
    by (simp add: export_loop_append assms(3))
  then have "CommandExecuteHandler_body h tr =
             bnd (export_loop h ?folder ?format (length pre) post)
               (\<lambda>_. bnd (host_call h ProgressHide)
                  (\<lambda>_. messageBox h (lit ''Exported '' @ py_str (length (visible_items_of h))
                                     @ lit '' files successfully.'')))
               tr'"
    by (simp add: body_from_loop [OF assms(1)] assms(2) bnd_def)
  with t l show ?thesis by simp
qed


theorem export_loop_invariant_witness:
  "export_loop
       (demo_host \<lparr>exportComponents = True, exportBodies = True, fileFormat = lit ''STL''\<rparr>
          (lit ''out'') never)
       (lit ''out'') (lit ''STL'') 0 [Component base, Component arm]
       [SelectFolderDialog (lit ''Select folder for exported files''),
        CreateProgressDialog,
        SetIsBackgroundTranslucent False,
        ProgressShow (lit ''Exporting files'') (lit ''Exporting...'') 0 4 1]
     = ([SelectFolderDialog (lit ''Select folder for exported files''),
         CreateProgressDialog,
         SetIsBackgroundTranslucent False,
         ProgressShow (lit ''Exporting files'') (lit ''Exporting...'') 0 4 1,
         Create (STLExportOptions [screw, lid] (lit ''out/base.stl'')),
         Execute (STLExportOptions [screw, lid] (lit ''out/base.stl'')),
         SetProgressValue 1,
         Create (STLExportOptions [] (lit ''out/arm2.stl'')),
         Execute (STLExportOptions [] (lit ''out/arm2.stl'')),
         SetProgressValue 2], Inr ())
   \<and> CommandExecuteHandler_body
       (demo_host \<lparr>exportComponents = True, exportBodies = True, fileFormat = lit ''STL''\<rparr>
          (lit ''out'') never) []
     = ([SelectFolderDialog (lit ''Select folder for exported files''),
         CreateProgressDialog,
         SetIsBackgroundTranslucent False,
         ProgressShow (lit ''Exporting files'') (lit ''Exporting...'') 0 4 1,
         Create (STLExportOptions [screw, lid] (lit ''out/base.stl'')),
         Execute (STLExportOptions [screw, lid] (lit ''out/base.stl'')),
         SetProgressValue 1,
         Create (STLExportOptions [] (lit ''out/arm2.stl'')),
         Execute (STLExportOptions [] (lit ''out/arm2.stl'')),
         SetProgressValue 2,
         Create (STLExportOptions [] (lit ''out/cap.stl'')),
         Execute (STLExportOptions [] (lit ''out/cap.stl'')),
         SetProgressValue 3,
         Create (STLExportOptions [lid] (lit ''out/lid.stl'')),
         Execute (STLExportOptions [lid] (lit ''out/lid.stl'')),
         SetProgressValue 4,
         ProgressHide,
         MessageBox (lit ''Exported 4 files successfully.'')], Inr ())"
proof -
  let ?h = "demo_host \<lparr>exportComponents = True, exportBodies = True, fileFormat = lit ''STL''\<rparr>
              (lit ''out'') never"
  let ?tr0 = "[SelectFolderDialog (lit ''Select folder for exported files''),
        CreateProgressDialog,
        SetIsBackgroundTranslucent False,
        ProgressShow (lit ''Exporting files'') (lit ''Exporting...'') 0 4 1]"
  let ?tr1 = "?tr0 @ [Create (STLExportOptions [screw, lid] (lit ''out/base.stl'')),
         Execute (STLExportOptions [screw, lid] (lit ''out/base.stl'')),
         SetProgressValue 1,
         Create (STLExportOptions [] (lit ''out/arm2.stl'')),
         Execute (STLExportOptions [] (lit ''out/arm2.stl'')),
         SetProgressValue 2]"
  have v: "visible_items_of ?h =
             [Component base, Component arm] @ [Component cap, BRepBody lid]"
    by (simp add: visible_items_of_def get_visible_entities_def demo_defs)
  have c: "prologue_calls ?h = ?tr0"
    by (simp add: prologue_calls_def v)
  have p: "prologue_returns ?h []"
    by (simp add: prologue_returns_def c) (simp add: demo_host_def never_def lit_def)
  have f: "folder_choice ?h = lit ''out''" "fileFormat (commandInputs ?h) = lit ''STL''"
    by (simp_all add: demo_host_def)
  have l: "export_loop ?h (folder_choice ?h) (fileFormat (commandInputs ?h)) 0
             [Component base, Component arm] ([] @ prologue_calls ?h) = (?tr1, Inr ())"
    unfolding f c by (simp add: export_entity_def io_defs helper_defs demo_defs lit_def)
  have "length (visible_items_of ?h) = 4"
    by (simp add: v)
  moreover have "py_str 4 = lit ''4''"
    by (subst py_str.simps) (simp add: lit_def)
  ultimately have n: "py_str (length (visible_items_of ?h)) = lit ''4''"
    by (simp only: )
  from export_loop_invariant [OF p v l, THEN conjunct2, THEN conjunct2]
  have "CommandExecuteHandler_body ?h [] =
          bnd (export_loop ?h (lit ''out'') (lit ''STL'') (length [Component base, Component arm])
                 [Component cap, BRepBody lid])
            (\<lambda>_. bnd (host_call ?h ProgressHide)
               (\<lambda>_. messageBox ?h (lit ''Exported '' @ lit ''4'' @ lit '' files successfully.'')))
            ?tr1"
    unfolding f n .
  also have "\<dots> = (?tr1 @ [Create (STLExportOptions [] (lit ''out/cap.stl'')),
         Execute (STLExportOptions [] (lit ''out/cap.stl'')),
         SetProgressValue 3,
         Create (STLExportOptions [lid] (lit ''out/lid.stl'')),
         Execute (STLExportOptions [lid] (lit ''out/lid.stl'')),
         SetProgressValue 4,
         ProgressHide,
         MessageBox (lit ''Exported 4 files successfully.'')], Inr ())"
    by (simp add: export_entity_def io_defs helper_defs demo_defs lit_def)
  finally have b: "CommandExecuteHandler_body ?h [] = (?tr1 @ [Create (STLExportOptions [] (lit ''out/cap.stl'')),
         Execute (STLExportOptions [] (lit ''out/cap.stl'')),
         SetProgressValue 3,
         Create (STLExportOptions [lid] (lit ''out/lid.stl'')),
         Execute (STLExportOptions [lid] (lit ''out/lid.stl'')),
         SetProgressValue 4,
         ProgressHide,
         MessageBox (lit ''Exported 4 files successfully.'')], Inr ())" .
  from l b show ?thesis unfolding f c by simp
qed

text \<open>
  Claim C2. If \<^verbatim>\<open>export_entity\<close> raises while the execute callback exports the item at
  index \<open>i\<close> (the items before it exported, and their progress assigned, without an
  exception), the callback makes one more call only, the message box with the stack trace:
  no item after index \<open>i\<close> is exported, and nothing is done about the files already
  written. The callback ends as that message box does.
\<close>

theorem failed_export_aborts_batch:
  assumes "prologue_returns h tr"
    and "visible_items_of h = pre @ item # post"
    and "export_loop h (folder_choice h) (fileFormat (commandInputs h)) 0 pre
           (tr @ prologue_calls h) = (tr1, Inr ())"
    and "export_entity h item (folder_choice h) (fileFormat (commandInputs h)) tr1 = (tr2, Inl x)"
  shows "CommandExecuteHandler_notify h tr =
           (let box = MessageBox (lit ''Failed in CommandExecuteHandler:'' @ [10] @ format_exc x)
            in (tr2 @ [box], case raises h tr2 box of Some y \<Rightarrow> Inl y | None \<Rightarrow> Inr ()))"
proof -
  have "export_loop h (folder_choice h) (fileFormat (commandInputs h)) 0 (pre @ item # post)
          (tr @ prologue_calls h) = (tr2, Inl x)"
    by (simp add: export_loop_append assms(3,4) bnd_def)
  then have "CommandExecuteHandler_body h tr = (tr2, Inl x)"
    by (simp add: body_from_loop [OF assms(1)] assms(2) bnd_def)
  then show ?thesis
    unfolding CommandExecuteHandler_notify_def
    by (rule try_except_raised [where body = "CommandExecuteHandler_body h"])
qed

theorem failed_export_aborts_batch_witness:
  "CommandExecuteHandler_notify
     (demo_host \<lparr>exportComponents = True, exportBodies = False, fileFormat = lit ''STEP''\<rparr>
        (lit ''out'') (at_call 8)) []
   = ([SelectFolderDialog (lit ''Select folder for exported files''),
       CreateProgressDialog,
       SetIsBackgroundTranslucent False,
       ProgressShow (lit ''Exporting files'') (lit ''Exporting...'') 0 3 1,
       Create (STEPExportOptions (lit ''out/base.step'') base),
       Execute (STEPExportOptions (lit ''out/base.step'') base),
       SetProgressValue 1,
       Create (STEPExportOptions (lit ''out/arm2.step'') arm),
       Execute (STEPExportOptions (lit ''out/arm2.step'') arm),
       MessageBox (lit ''Failed in CommandExecuteHandler:'' @ [10] @ lit ''RuntimeError'')],
      Inr ())"
proof -
  let ?h = "demo_host \<lparr>exportComponents = True, exportBodies = False, fileFormat = lit ''STEP''\<rparr>
              (lit ''out'') (at_call 8)"
  let ?tr0 = "[SelectFolderDialog (lit ''Select folder for exported files''),
       CreateProgressDialog,
       SetIsBackgroundTranslucent False,
       ProgressShow (lit ''Exporting files'') (lit ''Exporting...'') 0 3 1]"
  let ?tr1 = "?tr0 @ [Create (STEPExportOptions (lit ''out/base.step'') base),
       Execute (STEPExportOptions (lit ''out/base.step'') base),
       SetProgressValue 1]"
  let ?tr2 = "?tr1 @ [Create (STEPExportOptions (lit ''out/arm2.step'') arm),
       Execute (STEPExportOptions (lit ''out/arm2.step'') arm)]"
  have v: "visible_items_of ?h = [Component base] @ Component arm # [Component cap]"
    by (simp add: visible_items_of_def get_visible_entities_def demo_defs)
  have c: "prologue_calls ?h = ?tr0"
    by (simp add: prologue_calls_def v)
  have p: "prologue_returns ?h []"
    by (simp add: prologue_returns_def c) (simp add: demo_host_def at_call_def lit_def)
  have f: "folder_choice ?h = lit ''out''" "fileFormat (commandInputs ?h) = lit ''STEP''"
    by (simp_all add: demo_host_def)
  have l: "export_loop ?h (folder_choice ?h) (fileFormat (commandInputs ?h)) 0 [Component base]
             ([] @ prologue_calls ?h) = (?tr1, Inr ())"
    unfolding f c by (simp add: export_entity_def io_defs helper_defs demo_defs lit_def)
  have e: "export_entity ?h (Component arm) (folder_choice ?h) (fileFormat (commandInputs ?h)) ?tr1
             = (?tr2, Inl (Raised (lit ''RuntimeError'')))"
    unfolding f by (simp add: export_entity_def io_defs helper_defs demo_defs lit_def)
  from failed_export_aborts_batch [OF p v l e] show ?thesis
    by (simp add: Let_def demo_host_def at_call_def)
qed

subsection \<open>The count shown and the items exported\<close>










end
